theory Spec2Isabelle
  imports Complex_Main "HOL-Library.Multiset"
begin

section \<open>Python values used by the interface\<close>

text \<open>
  A Python \<open>float\<close> is an IEEE double. Its finite values are idealised as reals (rounding
  is not modelled); the two infinities and NaN are kept as values of their own, since
  \<open>math.exp\<close> and \<open>math.log\<close> treat them specially.
\<close>

datatype pyfloat = Fin real | PInf | NInf | NaN

text \<open>
  The exceptions the two modules can raise, each with its message. \<open>ConfigurationError\<close>
  is the specification's name for the failure to locate a model artifact;
  \<open>ExternalError\<close> stands for an exception raised inside the LocalRetro library.
\<close>

datatype error =
    ValidationError "string list"
  | ValueError string
  | OverflowError string
  | IndexError string
  | KeyError string
  | NotImplementedError
  | ConfigurationError string
  | ExternalError string

fun error_messages :: "error \<Rightarrow> string list" where
  "error_messages (ValidationError ms) = ms"
| "error_messages (ValueError m) = [m]"
| "error_messages (OverflowError m) = [m]"
| "error_messages (IndexError m) = [m]"
| "error_messages (KeyError m) = [m]"
| "error_messages NotImplementedError = []"
| "error_messages (ConfigurationError m) = [m]"
| "error_messages (ExternalError m) = [m]"

text \<open>Comparison of floats: every comparison with NaN is false.\<close>

fun py_le :: "pyfloat \<Rightarrow> pyfloat \<Rightarrow> bool" where
  "py_le NaN _ = False"
| "py_le _ NaN = False"
| "py_le NInf _ = True"
| "py_le _ PInf = True"
| "py_le (Fin a) (Fin b) = (a \<le> b)"
| "py_le _ _ = False"

text \<open>The largest finite double, beyond which \<open>math.exp\<close> reports a range error.\<close>

definition DBL_MAX :: real where
  "DBL_MAX = (2 - 1 / 2 ^ 52) * 2 ^ 1023"

text \<open>
  \<open>math.exp\<close>: an overflowing result of a finite argument raises
  \<open>OverflowError('math range error')\<close>; the infinities and NaN are mapped as IEEE does.
\<close>

fun math_exp :: "pyfloat \<Rightarrow> error + pyfloat" where
  "math_exp (Fin x) =
     (if DBL_MAX < exp x then Inl (OverflowError ''math range error'')
      else Inr (Fin (exp x)))"
| "math_exp PInf = Inr PInf"
| "math_exp NInf = Inr (Fin 0)"
| "math_exp NaN = Inr NaN"

text \<open>
  \<open>math.log\<close>: zero, a negative number and minus infinity raise
  \<open>ValueError('math domain error')\<close>.
\<close>

fun math_log :: "pyfloat \<Rightarrow> error + pyfloat" where
  "math_log (Fin x) =
     (if 0 < x then Inr (Fin (ln x)) else Inl (ValueError ''math domain error''))"
| "math_log PInf = Inr PInf"
| "math_log NInf = Inl (ValueError ''math domain error'')"
| "math_log NaN = Inr NaN"

text \<open>
  \<open>Molecule\<close> is a collaborator type; the adapter reads only its \<open>smiles\<close> attribute.
  \<open>Bag[Molecule]\<close> is an unordered multiset.
\<close>

record Molecule =
  smiles :: string

type_synonym 'a Bag = "'a multiset"


section \<open>interface/models.py: Prediction\<close>

text \<open>
  The class \<open>Prediction\<close>, generic in the input and the output type. The third type
  parameter stands for the values (\<open>Any\<close>) of the metadata dictionary.
\<close>

record ('i, 'o, 'a) Prediction =
  input :: 'i
  "output" :: 'o
  probability :: "pyfloat option"
  log_prob :: "pyfloat option"
  score :: "pyfloat option"
  reaction :: "string option"
  rxnid :: "int option"
  metadata :: "(string \<rightharpoonup> 'a) option"

definition get_prob :: "('i, 'o, 'a) Prediction \<Rightarrow> error + pyfloat" where
  "get_prob self =
     (case probability self of
        Some p \<Rightarrow> Inr p
      | None \<Rightarrow>
          (case log_prob self of
             Some l \<Rightarrow> math_exp l
           | None \<Rightarrow>
               Inl (ValueError
                 ''Prediction does not have associated probability or log prob value.'')))"

definition get_log_prob :: "('i, 'o, 'a) Prediction \<Rightarrow> error + pyfloat" where
  "get_log_prob self =
     (case log_prob self of
        Some l \<Rightarrow> Inr l
      | None \<Rightarrow>
          (case probability self of
             Some p \<Rightarrow> math_log p
           | None \<Rightarrow>
               Inl (ValueError
                 ''Prediction does not have associated log prob or probability value.'')))"

text \<open>The root validator: it receives the field values and returns them unchanged.\<close>

definition check_at_most_one_source_prob ::
  "('i, 'o, 'a) Prediction \<Rightarrow> error + ('i, 'o, 'a) Prediction" where
  "check_at_most_one_source_prob values =
     (if probability values \<noteq> None \<and> log_prob values \<noteq> None
      then Inl (ValueError
             ''Probability can be stored as probability or log probability, not both'')
      else Inr values)"

text \<open>
  pydantic runs the root validator when a model is built from field values, and reports a
  \<open>ValueError\<close> raised by it as a \<open>ValidationError\<close> carrying the message.
\<close>

fun run_root_validator :: "error + 'v \<Rightarrow> error + 'v" where
  "run_root_validator (Inl (ValueError m)) = Inl (ValidationError [m])"
| "run_root_validator (Inl e) = Inl e"
| "run_root_validator (Inr v) = Inr v"

definition Prediction_validate ::
  "('i, 'o, 'a) Prediction \<Rightarrow> error + ('i, 'o, 'a) Prediction" where
  "Prediction_validate values = run_root_validator (check_at_most_one_source_prob values)"

text \<open>The constructor \<open>Prediction(input=..., output=..., probability=..., ...)\<close>.\<close>

definition Prediction_init ::
  "'i \<Rightarrow> 'o \<Rightarrow> pyfloat option \<Rightarrow> pyfloat option \<Rightarrow> pyfloat option \<Rightarrow> string option \<Rightarrow>
   int option \<Rightarrow> (string \<rightharpoonup> 'a) option \<Rightarrow> error + ('i, 'o, 'a) Prediction" where
  "Prediction_init inp out prob lp sc rxn rid md =
     Prediction_validate
       \<lparr>Prediction.input = inp, output = out, probability = prob, log_prob = lp, score = sc,
        reaction = rxn, rxnid = rid, Prediction.metadata = md\<rparr>"

text \<open>
  The invariant that the root validator enforces on the field values of a Prediction.
\<close>

definition at_most_one_source :: "('i, 'o, 'a) Prediction \<Rightarrow> bool" where
  "at_most_one_source values = (probability values = None \<or> log_prob values = None)"

text \<open>The error of an accessor that finds neither source field, in either wording.\<close>

definition missing_confidence :: "error + pyfloat \<Rightarrow> bool" where
  "missing_confidence r =
     (r = Inl (ValueError
            ''Prediction does not have associated probability or log prob value.'') \<or>
      r = Inl (ValueError
            ''Prediction does not have associated log prob or probability value.''))"

text \<open>
  The ranges the specification gives for the two confidence fields: a probability in
  \<open>[0, 1]\<close> and a log-probability at most \<open>0\<close>, each only when the field is set.
\<close>

definition field_range_invariant :: "('i, 'o, 'a) Prediction \<Rightarrow> bool" where
  "field_range_invariant self =
     ((case probability self of
         None \<Rightarrow> True
       | Some p \<Rightarrow> py_le (Fin 0) p \<and> py_le p (Fin 1)) \<and>
      (case log_prob self of
         None \<Rightarrow> True
       | Some l \<Rightarrow> py_le l (Fin 0)))"


section \<open>interface/models.py: PredictionList\<close>

record ('i, 'o, 'a) PredictionList =
  input :: 'i
  predictions :: "('i, 'o, 'a) Prediction list"
  metadata :: "(string \<rightharpoonup> 'a) option"

text \<open>
  \<open>self.dict()\<close> builds a new dictionary of the field values; a contained model is
  turned into the dictionary of its own field values.
\<close>

definition Prediction_dict :: "('i, 'o, 'a) Prediction \<Rightarrow> ('i, 'o, 'a) Prediction" where
  "Prediction_dict self =
     \<lparr>Prediction.input = Prediction.input self, output = output self,
      probability = probability self, log_prob = log_prob self, score = score self,
      reaction = reaction self, rxnid = rxnid self,
      Prediction.metadata = Prediction.metadata self\<rparr>"

definition PredictionList_dict ::
  "('i, 'o, 'a) PredictionList \<Rightarrow> ('i, 'o, 'a) PredictionList" where
  "PredictionList_dict self =
     \<lparr>PredictionList.input = PredictionList.input self,
      predictions = map Prediction_dict (predictions self),
      PredictionList.metadata = PredictionList.metadata self\<rparr>"

text \<open>
  pydantic validates every element of a list field and collects the messages of all the
  elements that fail.
\<close>

fun validate_each :: "('v \<Rightarrow> error + 'p) \<Rightarrow> 'v list \<Rightarrow> string list \<times> 'p list" where
  "validate_each f [] = ([], [])"
| "validate_each f (v # vs) =
     (case f v of
        Inl e \<Rightarrow> (error_messages e @ fst (validate_each f vs), snd (validate_each f vs))
      | Inr p \<Rightarrow> (fst (validate_each f vs), p # snd (validate_each f vs)))"

text \<open>
  The constructor \<open>PredictionList(input=..., predictions=..., metadata=...)\<close>, here on
  predictions given as dictionaries of field values, as \<open>truncated\<close> passes them.
\<close>

definition PredictionList_init ::
  "'i \<Rightarrow> ('i, 'o, 'a) Prediction list \<Rightarrow> (string \<rightharpoonup> 'a) option \<Rightarrow>
   error + ('i, 'o, 'a) PredictionList" where
  "PredictionList_init inp preds md =
     (case validate_each Prediction_validate preds of
        ([], ps) \<Rightarrow>
          Inr \<lparr>PredictionList.input = inp, predictions = ps, PredictionList.metadata = md\<rparr>
      | (errs, ps) \<Rightarrow> Inl (ValidationError errs))"

text \<open>The Python slice \<open>xs[:n]\<close>: a negative \<open>n\<close> counts from the end of the list.\<close>

definition slice_upto :: "'a list \<Rightarrow> int \<Rightarrow> 'a list" where
  "slice_upto xs n =
     (if n < 0 then take (nat (int (length xs) + n)) xs else take (nat n) xs)"

text \<open>
  \<open>truncated\<close> runs on a store of objects, addressed by their position, so that what the
  call does to the receiver is visible. \<open>self\<close> is the address of the receiver. The call
  allocates the dictionary \<open>fields\<close>, assigns the sliced list to its \<open>predictions\<close>
  entry, and allocates the list built from it; it returns the store and the address of
  the new list, or the error of the constructor.
\<close>

definition truncated ::
  "('i, 'o, 'a) PredictionList list \<Rightarrow> nat \<Rightarrow> int \<Rightarrow>
   ('i, 'o, 'a) PredictionList list \<times> (error + nat)" where
  "truncated st self num_results =
     (let fields = length st;
          st1 = st @ [PredictionList_dict (st ! self)];
          st2 = st1[fields := (st1 ! fields)
                   \<lparr>predictions := slice_upto (predictions (st1 ! fields)) num_results\<rparr>]
      in case PredictionList_init (PredictionList.input (st2 ! fields))
                (predictions (st2 ! fields)) (PredictionList.metadata (st2 ! fields)) of
           Inl e \<Rightarrow> (st2, Inl e)
         | Inr obj \<Rightarrow> (st2 @ [obj], Inr (length st2)))"


section \<open>interface/models.py: ReactionModel\<close>

text \<open>
  The methods of the class hierarchy. A method of the base class that calls another
  method of \<open>self\<close> takes the implementation that the instance's class supplies as its
  first argument.
\<close>

definition ReactionModel_is_backward :: "('self \<Rightarrow> bool) \<Rightarrow> 'self \<Rightarrow> bool" where
  "ReactionModel_is_backward is_forward self = (\<not> is_forward self)"

definition ReactionModel_get_parameters :: "'self \<Rightarrow> error + 'params" where
  "ReactionModel_get_parameters self = Inl NotImplementedError"

definition BackwardReactionModel_is_forward :: "'self \<Rightarrow> bool" where
  "BackwardReactionModel_is_forward self = False"

definition ForwardReactionModel_is_forward :: "'self \<Rightarrow> bool" where
  "ForwardReactionModel_is_forward self = True"


section \<open>reaction_prediction/inference/local_retro.py\<close>

text \<open>
  The adapter keeps its settings in the dictionary \<open>self.args\<close>, whose values are
  strings, booleans, integers, the list of rendered raw predictions, and objects of the
  LocalRetro library (featurizers, template tables), which are opaque here.
\<close>

datatype 'x arg =
    StrVal string
  | BoolVal bool
  | IntVal int
  | RawPredictions "string list list"
  | ExtVal 'x

type_synonym 'x args = "string \<rightharpoonup> 'x arg"

record 'x LocalRetroModel =
  args :: "'x args"
  model :: 'x

text \<open>
  What the adapter calls outside the repository: the file system (\<open>glob\<close> lists the
  paths in a directory that match a pattern), the LocalRetro, dgllife and torch
  functions, the rendering of a raw prediction by the f-string, Python's \<open>eval\<close> on a
  rendered candidate, and the SMILES parser used when a candidate is packaged. The
  loaders called by the constructor may fail; the calls made at inference are taken to
  return. \<open>collate_molgraphs_test\<close> stands for the component \<open>[1]\<close> of its result, and
  \<open>predict\<close> for the first two components of its result.
\<close>

record 'x LocalRetro_lib =
  glob :: "string \<Rightarrow> string \<Rightarrow> string list"
  init_featurizer :: "'x args \<Rightarrow> error + 'x args"
  load_model :: "'x args \<Rightarrow> error + 'x"
  load_templates :: "'x args \<Rightarrow> error + 'x \<times> 'x \<times> 'x"
  parameters :: "'x \<Rightarrow> 'x"
  smiles_to_bigraph :: "string \<Rightarrow> 'x arg \<Rightarrow> 'x arg \<Rightarrow> 'x"
  collate_molgraphs_test :: "'x list \<Rightarrow> 'x"
  predict :: "'x args \<Rightarrow> 'x \<Rightarrow> 'x \<Rightarrow> 'x \<times> 'x"
  softmax :: "'x \<Rightarrow> 'x list"
  get_bg_partition :: "'x \<Rightarrow> 'x list \<times> nat list \<times> nat list"
  combined_edit ::
    "'x \<Rightarrow> 'x list \<Rightarrow> 'x list \<Rightarrow> int \<Rightarrow> 'x list \<times> ('x \<times> 'x) list \<times> pyfloat list"
  render :: "'x \<Rightarrow> 'x \<Rightarrow> 'x \<Rightarrow> pyfloat \<Rightarrow> string"
  get_k_predictions :: "nat \<Rightarrow> 'x args \<Rightarrow> 'x \<times> string list list"
  eval :: "string \<Rightarrow> string \<times> pyfloat"
  decode_smiles :: "string \<Rightarrow> Molecule Bag option"





definition LocalRetroModel_get_parameters ::
  "'x LocalRetro_lib \<Rightarrow> 'x LocalRetroModel \<Rightarrow> error + 'x" where
  "LocalRetroModel_get_parameters lib self = Inr (parameters lib (model self))"

text \<open>
  \<open>_mols_to_batch\<close>: the two featurizers are looked up in \<open>self.args\<close> once per
  molecule, so a missing key raises only when there is a molecule.
\<close>

definition mols_to_batch ::
  "'x LocalRetro_lib \<Rightarrow> 'x LocalRetroModel \<Rightarrow> Molecule list \<Rightarrow> error + 'x" where
  "mols_to_batch lib self mols =
     (if mols = [] then Inr (collate_molgraphs_test lib [])
      else
        (case args self ''node_featurizer'' of
           None \<Rightarrow> Inl (KeyError ''node_featurizer'')
         | Some node_featurizer \<Rightarrow>
             (case args self ''edge_featurizer'' of
                None \<Rightarrow> Inl (KeyError ''edge_featurizer'')
              | Some edge_featurizer \<Rightarrow>
                  Inr (collate_molgraphs_test lib
                        (map (\<lambda>mol. smiles_to_bigraph lib (smiles mol)
                                       node_featurizer edge_featurizer) mols)))))"

text \<open>The slice \<open>xs[start:stop]\<close> for indices that are not negative.\<close>

definition slice_between :: "'a list \<Rightarrow> nat \<Rightarrow> nat \<Rightarrow> 'a list" where
  "slice_between xs start stop = take (stop - start) (drop start xs)"

text \<open>
  The comprehension over \<open>range(num_results)\<close> that renders the raw predictions of one
  input; an index beyond one of the three lists raises \<open>IndexError\<close>.
\<close>

fun render_each ::
  "'x LocalRetro_lib \<Rightarrow> 'x list \<Rightarrow> ('x \<times> 'x) list \<Rightarrow> pyfloat list \<Rightarrow> nat list \<Rightarrow>
   error + string list" where
  "render_each lib pred_types pred_sites pred_scores [] = Inr []"
| "render_each lib pred_types pred_sites pred_scores (i # rest) =
     (if i < length pred_types \<and> i < length pred_sites \<and> i < length pred_scores
      then
        (case render_each lib pred_types pred_sites pred_scores rest of
           Inl e \<Rightarrow> Inl e
         | Inr rs \<Rightarrow>
             Inr (render lib (pred_types ! i) (fst (pred_sites ! i)) (snd (pred_sites ! i))
                    (pred_scores ! i) # rs))
      else Inl (IndexError ''list index out of range''))"

text \<open>
  The first loop of \<open>_build_batch_predictions\<close>, over the zipped inputs, graphs and
  separators; \<open>acc\<close> is \<open>self.args['raw_predictions']\<close>. It returns the list as the
  loop leaves it, and the error if one was raised.
\<close>

fun build_raw_predictions ::
  "'x LocalRetro_lib \<Rightarrow> int \<Rightarrow> 'x list \<Rightarrow> 'x list \<Rightarrow>
   (Molecule \<times> 'x \<times> nat \<times> nat) list \<Rightarrow> nat \<Rightarrow> nat \<Rightarrow> string list list \<Rightarrow>
   string list list \<times> error option" where
  "build_raw_predictions lib num_results batch_atom_logits batch_bond_logits []
     start_node start_edge acc = (acc, None)"
| "build_raw_predictions lib num_results batch_atom_logits batch_bond_logits
     ((inp, graph, end_node, end_edge) # rest) start_node start_edge acc =
     (case combined_edit lib graph
             (slice_between batch_atom_logits start_node end_node)
             (slice_between batch_bond_logits start_edge end_edge) num_results of
        (pred_types, pred_sites, pred_scores) \<Rightarrow>
          (case render_each lib pred_types pred_sites pred_scores [0..<nat num_results] of
             Inl e \<Rightarrow> (acc, Some e)
           | Inr raw_predictions \<Rightarrow>
               build_raw_predictions lib num_results batch_atom_logits batch_bond_logits
                 rest end_node end_edge (acc @ [smiles inp # raw_predictions])))"

text \<open>
  Modelled from the spec: \<open>process_raw_smiles_outputs\<close> of
  \<open>reaction_prediction/utils/inference.py\<close>, which is not among the sources. The
  specification has each decoded candidate packaged into a Prediction for the given input,
  with the decoded output and the keyword arguments that come with the candidate, in the
  order of the candidates; a candidate that does not decode gives no prediction. The
  keyword arguments are a dictionary from field names to floats.
\<close>

fun package_candidates ::
  "'x LocalRetro_lib \<Rightarrow> Molecule \<Rightarrow> (string \<times> (string \<rightharpoonup> pyfloat)) list \<Rightarrow>
   error + (Molecule, Molecule Bag, 'a) Prediction list" where
  "package_candidates lib inp [] = Inr []"
| "package_candidates lib inp ((raw_output, kwargs) # rest) =
     (case decode_smiles lib raw_output of
        None \<Rightarrow> package_candidates lib inp rest
      | Some out \<Rightarrow>
          (case Prediction_init inp out (kwargs ''probability'') (kwargs ''log_prob'')
                  (kwargs ''score'') None None (Some Map.empty) of
             Inl e \<Rightarrow> Inl e
           | Inr p \<Rightarrow>
               (case package_candidates lib inp rest of
                  Inl e \<Rightarrow> Inl e
                | Inr ps \<Rightarrow> Inr (p # ps))))"

definition process_raw_smiles_outputs ::
  "'x LocalRetro_lib \<Rightarrow> Molecule \<Rightarrow> string list \<Rightarrow> (string \<rightharpoonup> pyfloat) list \<Rightarrow>
   error + (Molecule, Molecule Bag, 'a) PredictionList" where
  "process_raw_smiles_outputs lib inp output_list kwargs_list =
     (case package_candidates lib inp (zip output_list kwargs_list) of
        Inl e \<Rightarrow> Inl e
      | Inr ps \<Rightarrow> PredictionList_init inp ps (Some Map.empty))"

text \<open>
  What the specification asks of a packaged candidate: a Prediction for the input that is
  populated with the decoded output and the probability, and with nothing else; and the
  candidates of one input packaged in their order.
\<close>

definition candidate_prediction ::
  "Molecule \<Rightarrow> Molecule Bag \<Rightarrow> pyfloat \<Rightarrow> (Molecule, Molecule Bag, 'a) Prediction" where
  "candidate_prediction inp out p =
     \<lparr>Prediction.input = inp, output = out, probability = Some p, log_prob = None,
      score = None, reaction = None, rxnid = None, Prediction.metadata = Some Map.empty\<rparr>"

fun ranked_predictions ::
  "'x LocalRetro_lib \<Rightarrow> Molecule \<Rightarrow> (string \<times> pyfloat) list \<Rightarrow>
   (Molecule, Molecule Bag, 'a) Prediction list" where
  "ranked_predictions lib inp [] = []"
| "ranked_predictions lib inp ((raw_output, p) # rest) =
     (case decode_smiles lib raw_output of
        None \<Rightarrow> ranked_predictions lib inp rest
      | Some out \<Rightarrow> candidate_prediction inp out p # ranked_predictions lib inp rest)"

text \<open>
  The second loop of \<open>_build_batch_predictions\<close>, over \<open>enumerate(inputs)\<close>;
  \<open>[1][0]\<close> of the result of \<open>get_k_predictions\<close> raises \<open>IndexError\<close> on an empty
  second component.
\<close>

fun decode_batch ::
  "'x LocalRetro_lib \<Rightarrow> 'x args \<Rightarrow> nat \<Rightarrow> Molecule list \<Rightarrow>
   error + (Molecule, Molecule Bag, 'a) PredictionList list" where
  "decode_batch lib a idx [] = Inr []"
| "decode_batch lib a idx (inp # rest) =
     (case snd (get_k_predictions lib idx a) of
        [] \<Rightarrow> Inl (IndexError ''list index out of range'')
      | rendered # _ \<Rightarrow>
          (let raw_results = map (eval lib) rendered;
               raw_outputs = (if raw_results \<noteq> [] then map fst raw_results else []);
               probabilities = (if raw_results \<noteq> [] then map snd raw_results else [])
           in case process_raw_smiles_outputs lib inp raw_outputs
                     (map (\<lambda>probability. [''probability'' \<mapsto> probability]) probabilities) of
                Inl e \<Rightarrow> Inl e
              | Inr batch_prediction \<Rightarrow>
                  (case decode_batch lib a (Suc idx) rest of
                     Inl e \<Rightarrow> Inl e
                   | Inr batch_predictions \<Rightarrow> Inr (batch_prediction # batch_predictions))))"

text \<open>
  \<open>_build_batch_predictions\<close> returns the adapter, whose \<open>args\<close> it updates, and the
  batch of prediction lists or the error raised.
\<close>

definition build_batch_predictions ::
  "'x LocalRetro_lib \<Rightarrow> 'x LocalRetroModel \<Rightarrow> 'x \<Rightarrow> int \<Rightarrow> Molecule list \<Rightarrow> 'x list \<Rightarrow>
   'x list \<Rightarrow>
   'x LocalRetroModel \<times> (error + (Molecule, Molecule Bag, 'a) PredictionList list)" where
  "build_batch_predictions lib self batch num_results inputs batch_atom_logits
     batch_bond_logits =
     (case get_bg_partition lib batch of
        (graphs, nodes_sep, edges_sep) \<Rightarrow>
          (let self1 = self\<lparr>args := (args self)(''top_k'' \<mapsto> IntVal num_results,
                                     ''raw_predictions'' \<mapsto> RawPredictions [])\<rparr>
           in case build_raw_predictions lib num_results batch_atom_logits
                     batch_bond_logits (zip inputs (zip graphs (zip nodes_sep edges_sep)))
                     0 0 [] of
                (raw, raised) \<Rightarrow>
                  (let self2 = self1\<lparr>args := (args self1)
                                  (''raw_predictions'' \<mapsto> RawPredictions raw)\<rparr>
                   in case raised of
                        Some e \<Rightarrow> (self2, Inl e)
                      | None \<Rightarrow> (self2, decode_batch lib (args self2) 0 inputs))))"

text \<open>\<open>LocalRetroModel.__call__\<close>.\<close>

definition LocalRetroModel_call ::
  "'x LocalRetro_lib \<Rightarrow> 'x LocalRetroModel \<Rightarrow> Molecule list \<Rightarrow> int \<Rightarrow>
   'x LocalRetroModel \<times> (error + (Molecule, Molecule Bag, 'a) PredictionList list)" where
  "LocalRetroModel_call lib self inputs num_results =
     (case mols_to_batch lib self inputs of
        Inl e \<Rightarrow> (self, Inl e)
      | Inr batch \<Rightarrow>
          (case predict lib (args self) (model self) batch of
             (batch_atom_logits, batch_bond_logits) \<Rightarrow>
               build_batch_predictions lib self batch num_results inputs
                 (softmax lib batch_atom_logits) (softmax lib batch_bond_logits)))"


section \<open>Example values\<close>

definition ethanol :: Molecule where
  "ethanol = \<lparr>smiles = ''CCO''\<rparr>"

definition example_prediction ::
  "string \<Rightarrow> pyfloat option \<Rightarrow> pyfloat option \<Rightarrow> (Molecule, Molecule Bag, unit) Prediction" where
  "example_prediction out p l =
     \<lparr>Prediction.input = ethanol, output = {#\<lparr>smiles = out\<rparr>#}, probability = p,
      log_prob = l, score = None, reaction = None, rxnid = None,
      Prediction.metadata = Some Map.empty\<rparr>"

definition example_list :: "(Molecule, Molecule Bag, unit) PredictionList" where
  "example_list =
     \<lparr>PredictionList.input = ethanol,
      predictions =
        [example_prediction ''CC=O'' (Some (Fin (9 / 10))) None,
         example_prediction ''C=C.O'' None (Some (Fin (- 1))),
         example_prediction ''CC'' None None],
      PredictionList.metadata = Some Map.empty\<rparr>"


text \<open>
  A stand-in for the library, with the unit type for its objects: the model directory
  holds one checkpoint, one config and two data files; every graph gets as many raw
  predictions as are asked for; the decoder returns three candidates for every input, of
  which the second does not parse.
\<close>

definition example_lib :: "unit LocalRetro_lib" where
  "example_lib =
     \<lparr>glob = (\<lambda>dir pattern.
         if pattern = ''*.pth'' then [dir @ ''/model.pth'']
         else if pattern = ''*.json'' then [dir @ ''/config.json'']
         else if pattern = ''*.csv''
           then [dir @ ''/atom_templates.csv'', dir @ ''/bond_templates.csv'']
         else []),
      init_featurizer = (\<lambda>a. Inr (a(''node_featurizer'' \<mapsto> ExtVal (),
                                      ''edge_featurizer'' \<mapsto> ExtVal ()))),
      load_model = (\<lambda>a. Inr ()),
      load_templates = (\<lambda>a. Inr ((), (), ())),
      parameters = (\<lambda>m. m),
      smiles_to_bigraph = (\<lambda>s nf ef. ()),
      collate_molgraphs_test = (\<lambda>gs. ()),
      predict = (\<lambda>a m b. ((), ())),
      softmax = (\<lambda>t. [(), (), (), (), (), ()]),
      get_bg_partition = (\<lambda>b. ([(), ()], [3, 6], [2, 4])),
      combined_edit = (\<lambda>g al bl n.
         (replicate (nat n) (), replicate (nat n) ((), ()), replicate (nat n) (Fin (1 / 2)))),
      render = (\<lambda>t s0 s1 c. ''(a, 0, 1, 0.500)''),
      get_k_predictions = (\<lambda>idx a. ((), [[''C=C.O'', ''C(('', ''CC=O'']])),
      eval = (\<lambda>s. (s, if s = ''C=C.O'' then Fin (7 / 10) else Fin (1 / 5))),
      decode_smiles = (\<lambda>s. if s = ''C(('' then None else Some {#\<lparr>smiles = s\<rparr>#})\<rparr>"

text \<open>The same library, except that a graph gets a single raw prediction.\<close>

definition short_edit_lib :: "unit LocalRetro_lib" where
  "short_edit_lib =
     example_lib\<lparr>combined_edit := \<lambda>g al bl n. ([()], [((), ())], [Fin (1 / 2)])\<rparr>"


definition example_adapter :: "unit LocalRetroModel" where
  "example_adapter =
     \<lparr>args = [''node_featurizer'' \<mapsto> ExtVal (), ''edge_featurizer'' \<mapsto> ExtVal ()],
      model = ()\<rparr>"


section \<open>Facts about the float model\<close>

lemma DBL_MAX_ge_one: "1 \<le> DBL_MAX"
  unfolding DBL_MAX_def by simp

lemma math_exp_nonpos: "x \<le> 0 \<Longrightarrow> math_exp (Fin x) = Inr (Fin (exp x))"
proof -
  assume "x \<le> 0"
  then have "exp x \<le> 1" by simp
  with DBL_MAX_ge_one have "\<not> DBL_MAX < exp x" by linarith
  then show ?thesis by simp
qed

lemma math_exp_not_missing: "\<not> missing_confidence (math_exp l)"
  by (cases l) (simp_all add: missing_confidence_def)

lemma math_log_not_missing: "\<not> missing_confidence (math_log p)"
  by (cases p) (simp_all add: missing_confidence_def)


section \<open>Prediction: construction and accessors\<close>

lemma Prediction_validate_ok:
  "probability v = None \<or> log_prob v = None \<Longrightarrow> Prediction_validate v = Inr v"
  by (auto simp: Prediction_validate_def check_at_most_one_source_prob_def)

lemma Prediction_validate_both:
  "probability v = Some p \<Longrightarrow> log_prob v = Some l \<Longrightarrow>
   Prediction_validate v =
     Inl (ValidationError
       [''Probability can be stored as probability or log probability, not both''])"
  by (simp add: Prediction_validate_def check_at_most_one_source_prob_def)

lemma Prediction_validate_Inr:
  "Prediction_validate v = Inr w \<Longrightarrow> w = v \<and> (probability v = None \<or> log_prob v = None)"
  by (auto simp: Prediction_validate_def check_at_most_one_source_prob_def
      split: if_splits)

text \<open>
  C1. Whatever the two float values are, constructing a Prediction with both
  \<open>probability\<close> and \<open>log_prob\<close> given fails with a validation error at construction;
  with exactly one of them given, or with neither, the construction succeeds and returns
  the record of the given fields.
\<close>

theorem Prediction_init_at_most_one_source:
  "Prediction_init inp out (Some p) (Some l) sc rxn rid md =
     Inl (ValidationError
       [''Probability can be stored as probability or log probability, not both''])
   \<and> Prediction_init inp out (Some p) None sc rxn rid md =
       Inr \<lparr>Prediction.input = inp, output = out, probability = Some p, log_prob = None, score = sc,
            reaction = rxn, rxnid = rid, Prediction.metadata = md\<rparr>
   \<and> Prediction_init inp out None (Some l) sc rxn rid md =
       Inr \<lparr>Prediction.input = inp, output = out, probability = None, log_prob = Some l, score = sc,
            reaction = rxn, rxnid = rid, Prediction.metadata = md\<rparr>
   \<and> Prediction_init inp out None None sc rxn rid md =
       Inr \<lparr>Prediction.input = inp, output = out, probability = None, log_prob = None, score = sc,
            reaction = rxn, rxnid = rid, Prediction.metadata = md\<rparr>"
  by (simp add: Prediction_init_def Prediction_validate_def
      check_at_most_one_source_prob_def)

text \<open>
  C3. A Prediction built from a probability \<open>p\<close> in \<open>(0, 1]\<close> alone returns \<open>p\<close> from
  \<open>get_prob\<close> and \<open>log p\<close> from \<open>get_log_prob\<close>; one built from a log-probability
  \<open>l \<le> 0\<close> alone returns \<open>l\<close> from \<open>get_log_prob\<close> and \<open>exp l\<close> from \<open>get_prob\<close>,
  also for \<open>l\<close> minus infinity, where \<open>exp l\<close> is \<open>0\<close>. With finite floats idealised as
  reals the converted value is the exact logarithm or exponential, so it lies within every
  tolerance of it.
\<close>

theorem accessors_convert_between_spaces:
  "(0 < p \<and> p \<le> 1 \<longrightarrow>
      (\<exists>self. Prediction_init inp out (Some (Fin p)) None sc rxn rid md = Inr self
         \<and> get_prob self = Inr (Fin p) \<and> get_log_prob self = Inr (Fin (ln p))))
   \<and> (l \<le> 0 \<longrightarrow>
      (\<exists>self. Prediction_init inp out None (Some (Fin l)) sc rxn rid md = Inr self
         \<and> get_log_prob self = Inr (Fin l) \<and> get_prob self = Inr (Fin (exp l))))
   \<and> (\<exists>self. Prediction_init inp out None (Some NInf) sc rxn rid md = Inr self
         \<and> get_log_prob self = Inr NInf \<and> get_prob self = Inr (Fin 0))"
proof (intro conjI impI)
  assume "0 < p \<and> p \<le> 1"
  then show "\<exists>self. Prediction_init inp out (Some (Fin p)) None sc rxn rid md = Inr self
         \<and> get_prob self = Inr (Fin p) \<and> get_log_prob self = Inr (Fin (ln p))"
    by (simp add: Prediction_init_def Prediction_validate_ok get_prob_def get_log_prob_def)
next
  assume "l \<le> 0"
  then have "math_exp (Fin l) = Inr (Fin (exp l))" by (rule math_exp_nonpos)
  then show "\<exists>self. Prediction_init inp out None (Some (Fin l)) sc rxn rid md = Inr self
         \<and> get_log_prob self = Inr (Fin l) \<and> get_prob self = Inr (Fin (exp l))"
    by (simp add: Prediction_init_def Prediction_validate_ok get_prob_def get_log_prob_def)
next
  show "\<exists>self. Prediction_init inp out None (Some NInf) sc rxn rid md = Inr self
         \<and> get_log_prob self = Inr NInf \<and> get_prob self = Inr (Fin 0)"
    by (simp add: Prediction_init_def Prediction_validate_ok get_prob_def get_log_prob_def)
qed

theorem accessors_convert_between_spaces_witness:
  "(0::real) < 1 \<and> (1::real) \<le> 1
   \<and> (\<exists>self. Prediction_init \<lparr>smiles = ''CCO''\<rparr> {#\<lparr>smiles = ''CC=O''\<rparr>#}
               (Some (Fin 1)) None None None None (Some (Map.empty :: string \<rightharpoonup> unit))
             = Inr self
         \<and> get_prob self = Inr (Fin 1) \<and> get_log_prob self = Inr (Fin 0))
   \<and> (0::real) \<le> 0
   \<and> (\<exists>self. Prediction_init \<lparr>smiles = ''CCO''\<rparr> {#\<lparr>smiles = ''CC=O''\<rparr>#}
               None (Some (Fin 0)) None None None (Some (Map.empty :: string \<rightharpoonup> unit))
             = Inr self
         \<and> get_log_prob self = Inr (Fin 0) \<and> get_prob self = Inr (Fin 1))"
  using accessors_convert_between_spaces
    [of 1 "\<lparr>smiles = ''CCO''\<rparr>" "{#\<lparr>smiles = ''CC=O''\<rparr>#}" None None None
        "Some (Map.empty :: string \<rightharpoonup> unit)" 0]
  by simp

text \<open>
  C4. On a Prediction with neither \<open>probability\<close> nor \<open>log_prob\<close> set, \<open>get_prob\<close> and
  \<open>get_log_prob\<close> both fail with the missing-confidence \<open>ValueError\<close>; when at least one
  of the two is set, neither accessor fails with that error (an accessor may still fail
  inside \<open>math.log\<close> or \<open>math.exp\<close>, with the error of that function).
\<close>

theorem missing_confidence_iff_neither_set:
  "(probability self = None \<and> log_prob self = None \<longrightarrow>
      get_prob self =
        Inl (ValueError
          ''Prediction does not have associated probability or log prob value.'')
      \<and> get_log_prob self =
        Inl (ValueError
          ''Prediction does not have associated log prob or probability value.'')
      \<and> missing_confidence (get_prob self) \<and> missing_confidence (get_log_prob self))
   \<and> (probability self \<noteq> None \<or> log_prob self \<noteq> None \<longrightarrow>
      \<not> missing_confidence (get_prob self) \<and> \<not> missing_confidence (get_log_prob self))"
proof (intro conjI impI)
  assume none: "probability self = None \<and> log_prob self = None"
  then show "get_prob self =
      Inl (ValueError ''Prediction does not have associated probability or log prob value.'')"
    by (simp add: get_prob_def)
  then show "missing_confidence (get_prob self)"
    by (simp add: missing_confidence_def)
  from none show "get_log_prob self =
      Inl (ValueError ''Prediction does not have associated log prob or probability value.'')"
    by (simp add: get_log_prob_def)
  then show "missing_confidence (get_log_prob self)"
    by (simp add: missing_confidence_def)
next
  assume some: "probability self \<noteq> None \<or> log_prob self \<noteq> None"
  show "\<not> missing_confidence (get_prob self)"
  proof (cases "probability self")
    case (Some p)
    then show ?thesis by (simp add: get_prob_def missing_confidence_def)
  next
    case None
    with some obtain l where "log_prob self = Some l" by auto
    with None show ?thesis by (simp add: get_prob_def math_exp_not_missing)
  qed
  show "\<not> missing_confidence (get_log_prob self)"
  proof (cases "log_prob self")
    case (Some l)
    then show ?thesis by (simp add: get_log_prob_def missing_confidence_def)
  next
    case None
    with some obtain p where "probability self = Some p" by auto
    with None show ?thesis by (simp add: get_log_prob_def math_log_not_missing)
  qed
qed

theorem missing_confidence_iff_neither_set_witness:
  "probability (example_prediction ''CC'' None None) = None
   \<and> log_prob (example_prediction ''CC'' None None) = None
   \<and> get_prob (example_prediction ''CC'' None None) =
       Inl (ValueError
         ''Prediction does not have associated probability or log prob value.'')
   \<and> get_log_prob (example_prediction ''CC'' None None) =
       Inl (ValueError
         ''Prediction does not have associated log prob or probability value.'')
   \<and> probability (example_prediction ''CC'' (Some (Fin 0)) None) \<noteq> None
   \<and> \<not> missing_confidence (get_prob (example_prediction ''CC'' (Some (Fin 0)) None))
   \<and> \<not> missing_confidence (get_log_prob (example_prediction ''CC'' (Some (Fin 0)) None))
   \<and> get_log_prob (example_prediction ''CC'' (Some (Fin 0)) None) =
       Inl (ValueError ''math domain error'')"
proof -
  have neither: "probability (example_prediction ''CC'' None None) = None
      \<and> log_prob (example_prediction ''CC'' None None) = None"
    by (simp add: example_prediction_def)
  have one: "probability (example_prediction ''CC'' (Some (Fin 0)) None) \<noteq> None"
    by (simp add: example_prediction_def)
  have domain: "get_log_prob (example_prediction ''CC'' (Some (Fin 0)) None) =
       Inl (ValueError ''math domain error'')"
    by (simp add: example_prediction_def get_log_prob_def)
  from neither one domain
    missing_confidence_iff_neither_set [of "example_prediction ''CC'' None None"]
    missing_confidence_iff_neither_set [of "example_prediction ''CC'' (Some (Fin 0)) None"]
  show ?thesis by blast
qed

text \<open>
  C5 (as amended). A successfully constructed Prediction has at most one of
  \<open>probability\<close> and \<open>log_prob\<close> set and stores the two values as they were given;
  construction checks no range: whenever at most one of the two is given it succeeds,
  whatever the value.
\<close>

theorem Prediction_init_checks_no_range:
  "(Prediction_init inp out prob lp sc rxn rid md = Inr self \<longrightarrow>
      (probability self = None \<or> log_prob self = None)
      \<and> probability self = prob \<and> log_prob self = lp)
   \<and> (prob = None \<or> lp = None \<longrightarrow>
      Prediction_init inp out prob lp sc rxn rid md =
        Inr \<lparr>Prediction.input = inp, output = out, probability = prob, log_prob = lp,
             score = sc, reaction = rxn, rxnid = rid, Prediction.metadata = md\<rparr>)"
proof -
  have stored: "(probability self = None \<or> log_prob self = None)
      \<and> probability self = prob \<and> log_prob self = lp"
    if "Prediction_init inp out prob lp sc rxn rid md = Inr self"
    using that unfolding Prediction_init_def by (auto dest!: Prediction_validate_Inr)
  have accepted: "Prediction_init inp out prob lp sc rxn rid md =
      Inr \<lparr>Prediction.input = inp, output = out, probability = prob, log_prob = lp,
           score = sc, reaction = rxn, rxnid = rid, Prediction.metadata = md\<rparr>"
    if "prob = None \<or> lp = None"
    using that unfolding Prediction_init_def by (intro Prediction_validate_ok) simp
  from stored accepted show ?thesis by blast
qed

theorem Prediction_init_checks_no_range_witness:
  "Prediction_init \<lparr>smiles = ''CCO''\<rparr> {#\<lparr>smiles = ''CC=O''\<rparr>#} (Some (Fin (-3))) None
     None None None (Some (Map.empty :: string \<rightharpoonup> unit)) =
     Inr \<lparr>Prediction.input = \<lparr>smiles = ''CCO''\<rparr>, output = {#\<lparr>smiles = ''CC=O''\<rparr>#},
          probability = Some (Fin (-3)), log_prob = None, score = None, reaction = None,
          rxnid = None, Prediction.metadata = Some Map.empty\<rparr>
   \<and> probability \<lparr>Prediction.input = \<lparr>smiles = ''CCO''\<rparr>,
          output = {#\<lparr>smiles = ''CC=O''\<rparr>#},
          probability = Some (Fin (-3)), log_prob = None, score = None, reaction = None,
          rxnid = None, Prediction.metadata = Some (Map.empty :: string \<rightharpoonup> unit)\<rparr>
       = Some (Fin (-3))"
  using Prediction_init_checks_no_range
    [of "\<lparr>smiles = ''CCO''\<rparr>" "{#\<lparr>smiles = ''CC=O''\<rparr>#}" "Some (Fin (-3))" None None None
        None "Some (Map.empty :: string \<rightharpoonup> unit)"]
  by simp

text \<open>
  C5 as stated fails: a Prediction with probability \<open>2.0\<close>, and one with log-probability
  \<open>1.0\<close>, are constructed successfully although they violate the field ranges.
\<close>

theorem Prediction_init_out_of_range_counterexample:
  "Prediction_init \<lparr>smiles = ''CCO''\<rparr> {#\<lparr>smiles = ''CC=O''\<rparr>#} (Some (Fin 2)) None
     None None None (Some (Map.empty :: string \<rightharpoonup> unit)) =
     Inr \<lparr>Prediction.input = \<lparr>smiles = ''CCO''\<rparr>, output = {#\<lparr>smiles = ''CC=O''\<rparr>#},
          probability = Some (Fin 2), log_prob = None, score = None, reaction = None,
          rxnid = None, Prediction.metadata = Some Map.empty\<rparr>
   \<and> \<not> field_range_invariant
        \<lparr>Prediction.input = \<lparr>smiles = ''CCO''\<rparr>, output = {#\<lparr>smiles = ''CC=O''\<rparr>#},
          probability = Some (Fin 2), log_prob = None, score = None, reaction = None,
          rxnid = None, Prediction.metadata = Some (Map.empty :: string \<rightharpoonup> unit)\<rparr>
   \<and> Prediction_init \<lparr>smiles = ''CCO''\<rparr> {#\<lparr>smiles = ''CC=O''\<rparr>#} None (Some (Fin 1))
     None None None (Some (Map.empty :: string \<rightharpoonup> unit)) =
     Inr \<lparr>Prediction.input = \<lparr>smiles = ''CCO''\<rparr>, output = {#\<lparr>smiles = ''CC=O''\<rparr>#},
          probability = None, log_prob = Some (Fin 1), score = None, reaction = None,
          rxnid = None, Prediction.metadata = Some Map.empty\<rparr>
   \<and> \<not> field_range_invariant
        \<lparr>Prediction.input = \<lparr>smiles = ''CCO''\<rparr>, output = {#\<lparr>smiles = ''CC=O''\<rparr>#},
          probability = None, log_prob = Some (Fin 1), score = None, reaction = None,
          rxnid = None, Prediction.metadata = Some (Map.empty :: string \<rightharpoonup> unit)\<rparr>"
  by (simp add: Prediction_init_def Prediction_validate_def
      check_at_most_one_source_prob_def field_range_invariant_def)

section \<open>PredictionList: truncation\<close>

lemma Prediction_init_at_most_one:
  "Prediction_init inp out prob lp sc rxn rid md = Inr self \<Longrightarrow> at_most_one_source self"
  unfolding Prediction_init_def at_most_one_source_def
  by (auto dest!: Prediction_validate_Inr)

lemma Prediction_validate_at_most_one:
  "at_most_one_source v \<Longrightarrow> Prediction_validate v = Inr v"
  by (simp add: at_most_one_source_def Prediction_validate_ok)

lemma validate_each_valid:
  "list_all at_most_one_source ps \<Longrightarrow> validate_each Prediction_validate ps = ([], ps)"
  by (induction ps) (simp_all add: Prediction_validate_at_most_one)

lemma Prediction_dict_id: "Prediction_dict p = p"
  by (simp add: Prediction_dict_def)

lemma map_Prediction_dict: "map Prediction_dict ps = ps"
  by (induction ps) (simp_all add: Prediction_dict_id)

lemma PredictionList_dict_id: "PredictionList_dict l = l"
  by (simp add: PredictionList_dict_def map_Prediction_dict)

lemma PredictionList_init_valid:
  "list_all at_most_one_source ps \<Longrightarrow>
   PredictionList_init inp ps md =
     Inr \<lparr>PredictionList.input = inp, predictions = ps, PredictionList.metadata = md\<rparr>"
  by (simp add: PredictionList_init_def validate_each_valid)

lemma list_all_take: "list_all P xs \<Longrightarrow> list_all P (take k xs)"
  by (auto simp: list_all_iff dest: in_set_takeD)

lemma truncated_valid:
  assumes "self < length st"
    and "list_all at_most_one_source (predictions (st ! self))"
  shows "truncated st self n =
     (st @ [(st ! self)\<lparr>predictions := slice_upto (predictions (st ! self)) n\<rparr>,
            (st ! self)\<lparr>predictions := slice_upto (predictions (st ! self)) n\<rparr>],
      Inr (Suc (length st)))"
proof -
  have "list_all at_most_one_source (slice_upto (predictions (st ! self)) n)"
    using assms(2) by (simp add: slice_upto_def list_all_take)
  then show ?thesis
    by (simp add: truncated_def Let_def PredictionList_dict_id PredictionList_init_valid)
qed

text \<open>
  C2. Let the store hold a PredictionList at \<open>self\<close> whose \<open>k\<close> predictions are
  Prediction objects (each satisfies the invariant of its constructor), and let
  \<open>n \<ge> 0\<close>. Then \<open>truncated(n)\<close> returns a newly allocated PredictionList whose
  \<open>predictions\<close> are the first \<open>min k n\<close> predictions of the receiver in the same order
  and whose \<open>input\<close> and \<open>metadata\<close> are those of the receiver; every object that was in
  the store before the call, the receiver among them, is unchanged.
\<close>

theorem truncated_takes_prefix:
  assumes "self < length st" and "0 \<le> n"
    and "list_all at_most_one_source (predictions (st ! self))"
  shows "\<exists>st' r. truncated st self n = (st', Inr r)
     \<and> length st \<le> r \<and> r < length st' \<and> take (length st) st' = st
     \<and> predictions (st' ! r) = take (nat n) (predictions (st ! self))
     \<and> length (predictions (st' ! r)) = min (length (predictions (st ! self))) (nat n)
     \<and> PredictionList.input (st' ! r) = PredictionList.input (st ! self)
     \<and> PredictionList.metadata (st' ! r) = PredictionList.metadata (st ! self)"
proof -
  have "slice_upto (predictions (st ! self)) n = take (nat n) (predictions (st ! self))"
    using assms(2) by (simp add: slice_upto_def)
  then show ?thesis
    using truncated_valid [OF assms(1) assms(3), of n]
    by (simp add: nth_append)
qed

theorem truncated_takes_prefix_witness:
  "(0::nat) < length [example_list] \<and> (0::int) \<le> 2
   \<and> list_all at_most_one_source (predictions ([example_list] ! 0))
   \<and> (\<exists>st' r. truncated [example_list] 0 2 = (st', Inr r)
     \<and> length [example_list] \<le> r \<and> r < length st' \<and> take (length [example_list]) st' = [example_list]
     \<and> predictions (st' ! r) =
         [example_prediction ''CC=O'' (Some (Fin (9 / 10))) None,
          example_prediction ''C=C.O'' None (Some (Fin (- 1)))]
     \<and> length (predictions (st' ! r)) = 2
     \<and> PredictionList.input (st' ! r) = ethanol
     \<and> PredictionList.metadata (st' ! r) = Some Map.empty)"
proof -
  have valid: "list_all at_most_one_source (predictions ([example_list] ! 0))"
    by (simp add: example_list_def example_prediction_def at_most_one_source_def)
  have two: "take (nat 2) (predictions ([example_list] ! 0)) =
         [example_prediction ''CC=O'' (Some (Fin (9 / 10))) None,
          example_prediction ''C=C.O'' None (Some (Fin (- 1)))]"
    by (simp add: example_list_def numeral_2_eq_2)
  have inp: "PredictionList.input ([example_list] ! 0) = ethanol"
    and md: "PredictionList.metadata ([example_list] ! 0) = Some Map.empty"
    by (simp_all add: example_list_def)
  from truncated_takes_prefix [of 0 "[example_list]" 2, OF _ _ valid]
  obtain st' r where "truncated [example_list] 0 2 = (st', Inr r)"
    and "length [example_list] \<le> r" and "r < length st'"
    and "take (length [example_list]) st' = [example_list]"
    and "predictions (st' ! r) = take (nat 2) (predictions ([example_list] ! 0))"
    and "PredictionList.input (st' ! r) = PredictionList.input ([example_list] ! 0)"
    and "PredictionList.metadata (st' ! r) = PredictionList.metadata ([example_list] ! 0)"
    by auto
  with valid two inp md show ?thesis by auto
qed

text \<open>
  C10. For a negative \<open>n\<close>, \<open>truncated(n)\<close> on a list of \<open>k\<close> predictions neither fails
  nor returns the empty list in general: it returns a new list with the first
  \<open>max 0 (k + n)\<close> predictions of the receiver, that is, without the last \<open>|n|\<close>.
\<close>

theorem truncated_negative:
  assumes "self < length st" and "n < 0"
    and "list_all at_most_one_source (predictions (st ! self))"
  shows "\<exists>st' r. truncated st self n = (st', Inr r)
     \<and> length st \<le> r \<and> r < length st' \<and> take (length st) st' = st
     \<and> predictions (st' ! r) =
         take (nat (max 0 (int (length (predictions (st ! self))) + n)))
           (predictions (st ! self))
     \<and> length (predictions (st' ! r)) =
         nat (max 0 (int (length (predictions (st ! self))) + n))
     \<and> PredictionList.input (st' ! r) = PredictionList.input (st ! self)
     \<and> PredictionList.metadata (st' ! r) = PredictionList.metadata (st ! self)"
proof -
  have "slice_upto (predictions (st ! self)) n =
      take (nat (max 0 (int (length (predictions (st ! self))) + n))) (predictions (st ! self))"
    using assms(2) by (simp add: slice_upto_def max_def)
  then show ?thesis
    using truncated_valid [OF assms(1) assms(3), of n] assms(2)
    by (simp add: nth_append)
qed

theorem truncated_negative_witness:
  "(0::nat) < length [example_list] \<and> (- 1::int) < 0
   \<and> list_all at_most_one_source (predictions ([example_list] ! 0))
   \<and> (\<exists>st' r. truncated [example_list] 0 (- 1) = (st', Inr r)
     \<and> predictions (st' ! r) =
         [example_prediction ''CC=O'' (Some (Fin (9 / 10))) None,
          example_prediction ''C=C.O'' None (Some (Fin (- 1)))]
     \<and> length (predictions (st' ! r)) = 2)"
proof -
  have valid: "list_all at_most_one_source (predictions ([example_list] ! 0))"
    by (simp add: example_list_def example_prediction_def at_most_one_source_def)
  have two: "take (nat (max 0 (int (length (predictions ([example_list] ! 0))) + (- 1))))
           (predictions ([example_list] ! 0)) =
         [example_prediction ''CC=O'' (Some (Fin (9 / 10))) None,
          example_prediction ''C=C.O'' None (Some (Fin (- 1)))]"
    by (simp add: example_list_def)
  from truncated_negative [of 0 "[example_list]" "- 1", OF _ _ valid]
  obtain st' r where run: "truncated [example_list] 0 (- 1) = (st', Inr r)"
    and kept: "predictions (st' ! r) =
         take (nat (max 0 (int (length (predictions ([example_list] ! 0))) + (- 1))))
           (predictions ([example_list] ! 0))"
    by auto
  from kept have "predictions (st' ! r) =
         [example_prediction ''CC=O'' (Some (Fin (9 / 10))) None,
          example_prediction ''C=C.O'' None (Some (Fin (- 1)))]"
    unfolding two .
  with run valid show ?thesis by auto
qed

section \<open>ReactionModel\<close>

text \<open>
  C6. The inherited \<open>is_backward\<close> returns the negation of whatever \<open>is_forward\<close> the
  instance's class supplies; a ForwardReactionModel has \<open>is_forward\<close> true and
  \<open>is_backward\<close> false, a BackwardReactionModel has \<open>is_forward\<close> false and
  \<open>is_backward\<close> true.
\<close>

theorem is_backward_negates_is_forward:
  "ReactionModel_is_backward is_forward self = (\<not> is_forward self)
   \<and> ForwardReactionModel_is_forward fwd
   \<and> \<not> ReactionModel_is_backward ForwardReactionModel_is_forward fwd
   \<and> \<not> BackwardReactionModel_is_forward bwd
   \<and> ReactionModel_is_backward BackwardReactionModel_is_forward bwd"
  by (simp add: ReactionModel_is_backward_def ForwardReactionModel_is_forward_def
      BackwardReactionModel_is_forward_def)

text \<open>
  C9. The \<open>get_parameters\<close> inherited from ReactionModel fails with
  \<open>NotImplementedError\<close> on every instance; the override of LocalRetroModel returns the
  parameters of the underlying model.
\<close>

theorem get_parameters_default_not_implemented:
  "ReactionModel_get_parameters self = Inl NotImplementedError
   \<and> LocalRetroModel_get_parameters lib adapter = Inr (parameters lib (model adapter))"
  by (simp add: ReactionModel_get_parameters_def LocalRetroModel_get_parameters_def)

section \<open>LocalRetroModel: construction\<close>






section \<open>LocalRetroModel: inference\<close>

lemma render_each_rows:
  "\<forall>i \<in> set idxs. i < length ts \<and> i < length ss \<and> i < length cs \<Longrightarrow>
   render_each lib ts ss cs idxs =
     Inr (map (\<lambda>j. render lib (ts ! j) (fst (ss ! j)) (snd (ss ! j)) (cs ! j)) idxs)"
  by (induction idxs) simp_all

lemma build_raw_predictions_rows:
  assumes enough: "\<And>g al bl. case combined_edit lib g al bl n of
             (ts, ss, cs) \<Rightarrow> nat n \<le> length ts \<and> nat n \<le> length ss \<and> nat n \<le> length cs"
  shows "\<exists>raw. build_raw_predictions lib n atoms bonds zs sn se acc = (acc @ raw, None)
     \<and> length raw = length zs
     \<and> (\<forall>i < length zs. raw ! i =
          (case zs ! i of (inp, g, en, ee) \<Rightarrow>
             (case combined_edit lib g
                     (slice_between atoms
                        (if i = 0 then sn else fst (snd (snd (zs ! (i - 1))))) en)
                     (slice_between bonds
                        (if i = 0 then se else snd (snd (snd (zs ! (i - 1))))) ee) n of
                (ts, ss, cs) \<Rightarrow>
                  smiles inp #
                  map (\<lambda>j. render lib (ts ! j) (fst (ss ! j)) (snd (ss ! j)) (cs ! j))
                    [0..<nat n])))"
proof (induction zs arbitrary: sn se acc)
  case Nil
  show ?case by simp
next
  case (Cons z zs)
  obtain inp g en ee where z: "z = (inp, g, en, ee)" by (cases z) auto
  obtain ts ss cs where ce: "combined_edit lib g (slice_between atoms sn en)
      (slice_between bonds se ee) n = (ts, ss, cs)"
    by (cases "combined_edit lib g (slice_between atoms sn en) (slice_between bonds se ee) n")
      auto
  let ?row = "smiles inp #
      map (\<lambda>j. render lib (ts ! j) (fst (ss ! j)) (snd (ss ! j)) (cs ! j)) [0..<nat n]"
  from enough [of g "slice_between atoms sn en" "slice_between bonds se ee"] ce
  have "nat n \<le> length ts \<and> nat n \<le> length ss \<and> nat n \<le> length cs" by simp
  then have "\<forall>i \<in> set [0..<nat n]. i < length ts \<and> i < length ss \<and> i < length cs"
    by auto
  then have rs: "render_each lib ts ss cs [0..<nat n] =
      Inr (map (\<lambda>j. render lib (ts ! j) (fst (ss ! j)) (snd (ss ! j)) (cs ! j)) [0..<nat n])"
    by (rule render_each_rows)
  from Cons.IH [of en ee "acc @ [?row]"]
  obtain raw where run: "build_raw_predictions lib n atoms bonds zs en ee (acc @ [?row]) =
        ((acc @ [?row]) @ raw, None)"
    and len: "length raw = length zs"
    and rows: "\<forall>i < length zs. raw ! i =
          (case zs ! i of (inp, g, en', ee') \<Rightarrow>
             (case combined_edit lib g
                     (slice_between atoms
                        (if i = 0 then en else fst (snd (snd (zs ! (i - 1))))) en')
                     (slice_between bonds
                        (if i = 0 then ee else snd (snd (snd (zs ! (i - 1))))) ee') n of
                (ts, ss, cs) \<Rightarrow>
                  smiles inp #
                  map (\<lambda>j. render lib (ts ! j) (fst (ss ! j)) (snd (ss ! j)) (cs ! j))
                    [0..<nat n]))"
    by blast
  have step: "build_raw_predictions lib n atoms bonds (z # zs) sn se acc =
      (acc @ (?row # raw), None)"
    using z ce rs run by simp
  have all: "\<forall>i < length (z # zs). (?row # raw) ! i =
          (case (z # zs) ! i of (inp, g, en', ee') \<Rightarrow>
             (case combined_edit lib g
                     (slice_between atoms
                        (if i = 0 then sn else fst (snd (snd ((z # zs) ! (i - 1))))) en')
                     (slice_between bonds
                        (if i = 0 then se else snd (snd (snd ((z # zs) ! (i - 1))))) ee') n of
                (ts, ss, cs) \<Rightarrow>
                  smiles inp #
                  map (\<lambda>j. render lib (ts ! j) (fst (ss ! j)) (snd (ss ! j)) (cs ! j))
                    [0..<nat n]))"
  proof (intro allI impI)
    fix i assume i: "i < length (z # zs)"
    show "(?row # raw) ! i =
          (case (z # zs) ! i of (inp, g, en', ee') \<Rightarrow>
             (case combined_edit lib g
                     (slice_between atoms
                        (if i = 0 then sn else fst (snd (snd ((z # zs) ! (i - 1))))) en')
                     (slice_between bonds
                        (if i = 0 then se else snd (snd (snd ((z # zs) ! (i - 1))))) ee') n of
                (ts, ss, cs) \<Rightarrow>
                  smiles inp #
                  map (\<lambda>j. render lib (ts ! j) (fst (ss ! j)) (snd (ss ! j)) (cs ! j))
                    [0..<nat n]))"
    proof (cases i)
      case 0
      then show ?thesis using z ce by simp
    next
      case (Suc k)
      with i have k: "k < length zs" by simp
      have prev: "(z # zs) ! k = (if k = 0 then z else zs ! (k - 1))"
        by (cases k) simp_all
      from rows k have "raw ! k =
          (case zs ! k of (inp, g, en', ee') \<Rightarrow>
             (case combined_edit lib g
                     (slice_between atoms
                        (if k = 0 then en else fst (snd (snd (zs ! (k - 1))))) en')
                     (slice_between bonds
                        (if k = 0 then ee else snd (snd (snd (zs ! (k - 1))))) ee') n of
                (ts, ss, cs) \<Rightarrow>
                  smiles inp #
                  map (\<lambda>j. render lib (ts ! j) (fst (ss ! j)) (snd (ss ! j)) (cs ! j))
                    [0..<nat n]))"
        by blast
      then show ?thesis using Suc prev z by (cases "k = 0") simp_all
    qed
  qed
  from step all len show ?case by (intro exI [of _ "?row # raw"]) simp
qed

lemma candidate_prediction_init:
  "Prediction_init inp out (Some p) None None None None (Some Map.empty) =
     Inr (candidate_prediction inp out p)"
  by (simp add: Prediction_init_def candidate_prediction_def Prediction_validate_ok)

lemma package_candidates_probability:
  "package_candidates lib inp
     (zip (map fst rr) (map (\<lambda>probability. [''probability'' \<mapsto> probability]) (map snd rr))) =
   Inr (ranked_predictions lib inp rr)"
proof (induction rr)
  case Nil
  show ?case by simp
next
  case (Cons r rr)
  obtain raw p where r: "r = (raw, p)" by (cases r) auto
  with Cons show ?case
    by (cases "decode_smiles lib raw") (simp_all add: candidate_prediction_init)
qed

lemma ranked_predictions_valid:
  "list_all at_most_one_source (ranked_predictions lib inp rr)"
  by (induction lib inp rr rule: ranked_predictions.induct)
     (auto simp: at_most_one_source_def candidate_prediction_def split: option.splits)

lemma process_raw_smiles_outputs_probability:
  "process_raw_smiles_outputs lib inp (map fst rr)
     (map (\<lambda>probability. [''probability'' \<mapsto> probability]) (map snd rr)) =
   Inr \<lparr>PredictionList.input = inp, predictions = ranked_predictions lib inp rr,
        PredictionList.metadata = Some Map.empty\<rparr>"
  unfolding process_raw_smiles_outputs_def package_candidates_probability
  by (simp add: PredictionList_init_valid ranked_predictions_valid)

lemma decode_batch_total:
  assumes "\<And>idx. snd (get_k_predictions lib idx a) \<noteq> []"
  shows "\<exists>res :: (Molecule, Molecule Bag, 'a) PredictionList list.
     decode_batch lib a idx inputs = Inr res \<and> length res = length inputs
     \<and> (\<forall>i < length inputs. res ! i =
          \<lparr>PredictionList.input = inputs ! i,
           predictions = ranked_predictions lib (inputs ! i)
             (map (eval lib) (hd (snd (get_k_predictions lib (idx + i) a)))),
           PredictionList.metadata = Some Map.empty\<rparr>)"
proof (induction inputs arbitrary: idx)
  case Nil
  show ?case by simp
next
  case (Cons inp rest)
  from assms [of idx] obtain rendered others
    where gk: "snd (get_k_predictions lib idx a) = rendered # others"
    by (cases "snd (get_k_predictions lib idx a)") auto
  let ?rr = "map (eval lib) rendered"
  have cols: "(if ?rr \<noteq> [] then map fst ?rr else []) = map fst ?rr"
    "(if ?rr \<noteq> [] then map snd ?rr else []) = map snd ?rr"
    by auto
  let ?pl = "\<lparr>PredictionList.input = inp, predictions = ranked_predictions lib inp ?rr,
        PredictionList.metadata = Some Map.empty\<rparr> :: (Molecule, Molecule Bag, 'a) PredictionList"
  have one: "process_raw_smiles_outputs lib inp (if ?rr \<noteq> [] then map fst ?rr else [])
      (map (\<lambda>probability. [''probability'' \<mapsto> probability])
         (if ?rr \<noteq> [] then map snd ?rr else [])) = Inr ?pl"
    unfolding cols by (rule process_raw_smiles_outputs_probability)
  from Cons.IH [of "Suc idx"]
  obtain res :: "(Molecule, Molecule Bag, 'a) PredictionList list"
    where res: "decode_batch lib a (Suc idx) rest = Inr res"
      and len: "length res = length rest"
      and nth: "\<forall>i < length rest. res ! i =
          \<lparr>PredictionList.input = rest ! i,
           predictions = ranked_predictions lib (rest ! i)
             (map (eval lib) (hd (snd (get_k_predictions lib (Suc idx + i) a)))),
           PredictionList.metadata = Some Map.empty\<rparr>"
    by blast
  have run: "decode_batch lib a idx (inp # rest) = Inr (?pl # res)"
    using gk one res by (simp add: Let_def)
  have "\<forall>i < length (inp # rest). (?pl # res) ! i =
          \<lparr>PredictionList.input = (inp # rest) ! i,
           predictions = ranked_predictions lib ((inp # rest) ! i)
             (map (eval lib) (hd (snd (get_k_predictions lib (idx + i) a)))),
           PredictionList.metadata = Some Map.empty\<rparr>"
  proof (intro allI impI)
    fix i assume "i < length (inp # rest)"
    then show "(?pl # res) ! i =
          \<lparr>PredictionList.input = (inp # rest) ! i,
           predictions = ranked_predictions lib ((inp # rest) ! i)
             (map (eval lib) (hd (snd (get_k_predictions lib (idx + i) a)))),
           PredictionList.metadata = Some Map.empty\<rparr>"
      using nth gk by (cases i) auto
  qed
  with run len show ?case by simp
qed

lemma mols_to_batch_featurized:
  assumes "inputs = [] \<or>
    (args self ''node_featurizer'' = Some nf \<and> args self ''edge_featurizer'' = Some ef)"
  shows "mols_to_batch lib self inputs =
     Inr (collate_molgraphs_test lib
            (map (\<lambda>mol. smiles_to_bigraph lib (smiles mol) nf ef) inputs))"
proof (cases "inputs = []")
  case True
  then show ?thesis by (simp add: mols_to_batch_def)
next
  case False
  with assms show ?thesis by (simp add: mols_to_batch_def)
qed

lemma zip4_nth:
  "i < length (zip as (zip bs (zip cs ds))) \<Longrightarrow>
   zip as (zip bs (zip cs ds)) ! i = (as ! i, bs ! i, cs ! i, ds ! i)"
  by simp

lemma candidate_prediction_fields:
  "Prediction.input (candidate_prediction inp out p) = inp
   \<and> probability (candidate_prediction inp out p) = Some p
   \<and> log_prob (candidate_prediction inp out p) = None
   \<and> output (candidate_prediction inp out p) = out"
  by (simp add: candidate_prediction_def)

lemma ranked_predictions_fields:
  "list_all (\<lambda>p. Prediction.input p = inp \<and> probability p \<noteq> None \<and> log_prob p = None)
     (ranked_predictions lib inp rr)"
proof (induction rr)
  case Nil
  show ?case by simp
next
  case (Cons r rr)
  obtain raw p where r: "r = (raw, p)" by (cases r) auto
  with Cons show ?case
    by (cases "decode_smiles lib raw") (simp_all add: candidate_prediction_fields)
qed

text \<open>
  C7 (as amended). Let the adapter hold its two featurizers (or the batch be empty), let
  \<open>combined_edit\<close> return at least \<open>num_results\<close> raw predictions for a graph, and
  let the second component of what \<open>get_k_predictions\<close> returns be non-empty. Then
  \<open>__call__\<close> returns, and leaves in \<open>self.args['raw_predictions']\<close> one row for
  each input that has a graph and separators: the SMILES of the input followed by the
  \<open>num_results\<close> raw predictions that \<open>combined_edit\<close> gives for the graph of the
  input and its slices of the softmaxed logits of the batch built from the inputs. The
  batch returned has exactly one PredictionList per input, at the position of the input
  and with that input (equal inputs get entries of their own); the predictions of an
  entry are the candidates that \<open>get_k_predictions\<close> gives for that position from
  these \<open>args\<close>, in their order, each packaged with its decoded output and its
  probability, and none has \<open>log_prob\<close> set.
\<close>

theorem LocalRetroModel_call_one_list_per_input:
  assumes featurizers: "inputs = [] \<or>
      (args self ''node_featurizer'' = Some nf \<and> args self ''edge_featurizer'' = Some ef)"
    and logits: "predict lib (args self) (model self)
        (collate_molgraphs_test lib
           (map (\<lambda>mol. smiles_to_bigraph lib (smiles mol) nf ef) inputs)) = (al, bl)"
    and partition: "get_bg_partition lib
        (collate_molgraphs_test lib
           (map (\<lambda>mol. smiles_to_bigraph lib (smiles mol) nf ef) inputs)) =
        (graphs, nodes_sep, edges_sep)"
    and enough: "\<And>g atoms bonds. case combined_edit lib g atoms bonds num_results of
        (ts, ss, cs) \<Rightarrow> nat num_results \<le> length ts \<and> nat num_results \<le> length ss
          \<and> nat num_results \<le> length cs"
    and decoded: "\<And>idx a. snd (get_k_predictions lib idx a) \<noteq> []"
  shows "\<exists>raw res.
     LocalRetroModel_call lib self inputs num_results =
       (self\<lparr>args := (args self)(''top_k'' \<mapsto> IntVal num_results,
                                  ''raw_predictions'' \<mapsto> RawPredictions raw)\<rparr>,
        Inr res)
     \<and> length raw =
         min (length inputs) (min (length graphs) (min (length nodes_sep) (length edges_sep)))
     \<and> (\<forall>i < length raw. raw ! i =
          (case combined_edit lib (graphs ! i)
                  (slice_between (softmax lib al)
                     (if i = 0 then 0 else nodes_sep ! (i - 1)) (nodes_sep ! i))
                  (slice_between (softmax lib bl)
                     (if i = 0 then 0 else edges_sep ! (i - 1)) (edges_sep ! i))
                  num_results of
             (ts, ss, cs) \<Rightarrow>
               smiles (inputs ! i) #
               map (\<lambda>j. render lib (ts ! j) (fst (ss ! j)) (snd (ss ! j)) (cs ! j))
                 [0..<nat num_results]))
     \<and> length res = length inputs
     \<and> (\<forall>i < length inputs.
          PredictionList.input (res ! i) = inputs ! i
          \<and> predictions (res ! i) =
              (ranked_predictions lib (inputs ! i)
                (map (eval lib) (hd (snd (get_k_predictions lib i
                   ((args self)(''top_k'' \<mapsto> IntVal num_results,
                                ''raw_predictions'' \<mapsto> RawPredictions raw))))))
               :: (Molecule, Molecule Bag, 'a) Prediction list)
          \<and> list_all (\<lambda>p. Prediction.input p = inputs ! i \<and> probability p \<noteq> None
                           \<and> log_prob p = None) (predictions (res ! i)))"
proof -
  let ?batch = "collate_molgraphs_test lib
      (map (\<lambda>mol. smiles_to_bigraph lib (smiles mol) nf ef) inputs)"
  let ?zs = "zip inputs (zip graphs (zip nodes_sep edges_sep))"
  have batch: "mols_to_batch lib self inputs = Inr ?batch"
    using featurizers by (rule mols_to_batch_featurized)
  from build_raw_predictions_rows
    [where lib = lib and n = num_results and atoms = "softmax lib al"
       and bonds = "softmax lib bl" and zs = ?zs and sn = 0 and se = 0 and acc = "[]",
     OF enough]
  obtain raw where raw: "build_raw_predictions lib num_results (softmax lib al)
        (softmax lib bl) ?zs 0 0 [] = ([] @ raw, None)"
    and rlen: "length raw = length ?zs"
    and rows: "\<forall>i < length ?zs. raw ! i =
          (case ?zs ! i of (inp, g, en, ee) \<Rightarrow>
             (case combined_edit lib g
                     (slice_between (softmax lib al)
                        (if i = 0 then 0 else fst (snd (snd (?zs ! (i - 1))))) en)
                     (slice_between (softmax lib bl)
                        (if i = 0 then 0 else snd (snd (snd (?zs ! (i - 1))))) ee)
                     num_results of
                (ts, ss, cs) \<Rightarrow>
                  smiles inp #
                  map (\<lambda>j. render lib (ts ! j) (fst (ss ! j)) (snd (ss ! j)) (cs ! j))
                    [0..<nat num_results]))"
    by blast
  let ?args2 = "(args self)(''top_k'' \<mapsto> IntVal num_results,
                            ''raw_predictions'' \<mapsto> RawPredictions raw)"
  from decode_batch_total
    [where lib = lib and a = ?args2 and idx = 0 and inputs = inputs, OF decoded]
  obtain res :: "(Molecule, Molecule Bag, 'a) PredictionList list"
    where res: "decode_batch lib ?args2 0 inputs = Inr res"
      and len: "length res = length inputs"
      and nth: "\<forall>i < length inputs. res ! i =
          \<lparr>PredictionList.input = inputs ! i,
           predictions = ranked_predictions lib (inputs ! i)
             (map (eval lib) (hd (snd (get_k_predictions lib (0 + i) ?args2)))),
           PredictionList.metadata = Some Map.empty\<rparr>"
    by blast
  have run: "LocalRetroModel_call lib self inputs num_results =
      (self\<lparr>args := ?args2\<rparr>, Inr res)"
    using batch logits partition raw res
    by (simp add: LocalRetroModel_call_def build_batch_predictions_def Let_def)
  have rlen': "length raw =
      min (length inputs) (min (length graphs) (min (length nodes_sep) (length edges_sep)))"
    using rlen by simp
  have rows': "\<forall>i < length raw. raw ! i =
          (case combined_edit lib (graphs ! i)
                  (slice_between (softmax lib al)
                     (if i = 0 then 0 else nodes_sep ! (i - 1)) (nodes_sep ! i))
                  (slice_between (softmax lib bl)
                     (if i = 0 then 0 else edges_sep ! (i - 1)) (edges_sep ! i))
                  num_results of
             (ts, ss, cs) \<Rightarrow>
               smiles (inputs ! i) #
               map (\<lambda>j. render lib (ts ! j) (fst (ss ! j)) (snd (ss ! j)) (cs ! j))
                 [0..<nat num_results])"
  proof (intro allI impI)
    fix i assume "i < length raw"
    with rlen have i: "i < length ?zs" by simp
    then have prev: "i - 1 < length ?zs" by (rule less_imp_diff_less)
    have here: "?zs ! i = (inputs ! i, graphs ! i, nodes_sep ! i, edges_sep ! i)"
      using i by (rule zip4_nth)
    have before: "?zs ! (i - 1) =
        (inputs ! (i - 1), graphs ! (i - 1), nodes_sep ! (i - 1), edges_sep ! (i - 1))"
      using prev by (rule zip4_nth)
    from rows i have "raw ! i =
          (case ?zs ! i of (inp, g, en, ee) \<Rightarrow>
             (case combined_edit lib g
                     (slice_between (softmax lib al)
                        (if i = 0 then 0 else fst (snd (snd (?zs ! (i - 1))))) en)
                     (slice_between (softmax lib bl)
                        (if i = 0 then 0 else snd (snd (snd (?zs ! (i - 1))))) ee)
                     num_results of
                (ts, ss, cs) \<Rightarrow>
                  smiles inp #
                  map (\<lambda>j. render lib (ts ! j) (fst (ss ! j)) (snd (ss ! j)) (cs ! j))
                    [0..<nat num_results]))"
      by blast
    then show "raw ! i =
          (case combined_edit lib (graphs ! i)
                  (slice_between (softmax lib al)
                     (if i = 0 then 0 else nodes_sep ! (i - 1)) (nodes_sep ! i))
                  (slice_between (softmax lib bl)
                     (if i = 0 then 0 else edges_sep ! (i - 1)) (edges_sep ! i))
                  num_results of
             (ts, ss, cs) \<Rightarrow>
               smiles (inputs ! i) #
               map (\<lambda>j. render lib (ts ! j) (fst (ss ! j)) (snd (ss ! j)) (cs ! j))
                 [0..<nat num_results])"
      unfolding here before by simp
  qed
  have props: "\<forall>i < length inputs.
          PredictionList.input (res ! i) = inputs ! i
          \<and> predictions (res ! i) =
              ranked_predictions lib (inputs ! i)
                (map (eval lib) (hd (snd (get_k_predictions lib i ?args2))))
          \<and> list_all (\<lambda>p. Prediction.input p = inputs ! i \<and> probability p \<noteq> None
                           \<and> log_prob p = None) (predictions (res ! i))"
    using nth by (simp add: ranked_predictions_fields del: not_None_eq)
  show ?thesis
  proof (intro exI conjI)
    show "LocalRetroModel_call lib self inputs num_results =
        (self\<lparr>args := ?args2\<rparr>, Inr res)"
      by (rule run)
    show "length raw =
      min (length inputs) (min (length graphs) (min (length nodes_sep) (length edges_sep)))"
      by (rule rlen')
    show "\<forall>i < length raw. raw ! i =
          (case combined_edit lib (graphs ! i)
                  (slice_between (softmax lib al)
                     (if i = 0 then 0 else nodes_sep ! (i - 1)) (nodes_sep ! i))
                  (slice_between (softmax lib bl)
                     (if i = 0 then 0 else edges_sep ! (i - 1)) (edges_sep ! i))
                  num_results of
             (ts, ss, cs) \<Rightarrow>
               smiles (inputs ! i) #
               map (\<lambda>j. render lib (ts ! j) (fst (ss ! j)) (snd (ss ! j)) (cs ! j))
                 [0..<nat num_results])"
      by (rule rows')
    show "length res = length inputs" by (rule len)
    show "\<forall>i < length inputs.
          PredictionList.input (res ! i) = inputs ! i
          \<and> predictions (res ! i) =
              ranked_predictions lib (inputs ! i)
                (map (eval lib) (hd (snd (get_k_predictions lib i ?args2))))
          \<and> list_all (\<lambda>p. Prediction.input p = inputs ! i \<and> probability p \<noteq> None
                           \<and> log_prob p = None) (predictions (res ! i))"
      by (rule props)
  qed
qed

text \<open>
  C7 as stated fails: when \<open>combined_edit\<close> returns one raw prediction and two results
  are asked for, the comprehension over \<open>range(num_results)\<close> raises \<open>IndexError\<close>
  and the call returns no batch.
\<close>

theorem LocalRetroModel_call_short_edits_counterexample:
  "LocalRetroModel_call short_edit_lib example_adapter [ethanol] 2 =
     (example_adapter\<lparr>args := (args example_adapter)
         (''top_k'' \<mapsto> IntVal 2, ''raw_predictions'' \<mapsto> RawPredictions [])\<rparr>,
      (Inl (IndexError ''list index out of range'')
         :: error + (Molecule, Molecule Bag, unit) PredictionList list))"
  by (simp add: LocalRetroModel_call_def build_batch_predictions_def mols_to_batch_def
      short_edit_lib_def example_lib_def example_adapter_def Let_def upt_rec)


theorem LocalRetroModel_call_one_list_per_input_witness:
  "(args example_adapter ''node_featurizer'' = Some (ExtVal ())
      \<and> args example_adapter ''edge_featurizer'' = Some (ExtVal ()))
   \<and> (\<forall>g atoms bonds. case combined_edit example_lib g atoms bonds 2 of
        (ts, ss, cs) \<Rightarrow> nat 2 \<le> length ts \<and> nat 2 \<le> length ss \<and> nat 2 \<le> length cs)
   \<and> (\<forall>idx a. snd (get_k_predictions example_lib idx a) \<noteq> [])
   \<and> (\<exists>raw (res :: (Molecule, Molecule Bag, unit) PredictionList list).
        LocalRetroModel_call example_lib example_adapter [ethanol, ethanol] 2 =
          (example_adapter\<lparr>args := (args example_adapter)
              (''top_k'' \<mapsto> IntVal 2, ''raw_predictions'' \<mapsto> RawPredictions raw)\<rparr>,
           Inr res)
        \<and> length raw = 2
        \<and> raw ! 0 = [''CCO'', ''(a, 0, 1, 0.500)'', ''(a, 0, 1, 0.500)'']
        \<and> raw ! 1 = [''CCO'', ''(a, 0, 1, 0.500)'', ''(a, 0, 1, 0.500)'']
        \<and> length res = 2
        \<and> PredictionList.input (res ! 0) = ethanol
        \<and> PredictionList.input (res ! 1) = ethanol
        \<and> predictions (res ! 0) =
            [candidate_prediction ethanol {#\<lparr>smiles = ''C=C.O''\<rparr>#} (Fin (7 / 10)),
             candidate_prediction ethanol {#\<lparr>smiles = ''CC=O''\<rparr>#} (Fin (1 / 5))]
        \<and> predictions (res ! 1) =
            [candidate_prediction ethanol {#\<lparr>smiles = ''C=C.O''\<rparr>#} (Fin (7 / 10)),
             candidate_prediction ethanol {#\<lparr>smiles = ''CC=O''\<rparr>#} (Fin (1 / 5))])"
proof -
  have keys: "args example_adapter ''node_featurizer'' = Some (ExtVal ())
       \<and> args example_adapter ''edge_featurizer'' = Some (ExtVal ())"
    by (simp add: example_adapter_def)
  then have featurizers: "[ethanol, ethanol] = [] \<or>
      (args example_adapter ''node_featurizer'' = Some (ExtVal ())
       \<and> args example_adapter ''edge_featurizer'' = Some (ExtVal ()))"
    by simp
  have logits: "predict example_lib (args example_adapter) (model example_adapter)
        (collate_molgraphs_test example_lib
           (map (\<lambda>mol. smiles_to_bigraph example_lib (smiles mol) (ExtVal ()) (ExtVal ()))
              [ethanol, ethanol])) = ((), ())"
    by (simp add: example_lib_def)
  have partition: "get_bg_partition example_lib
        (collate_molgraphs_test example_lib
           (map (\<lambda>mol. smiles_to_bigraph example_lib (smiles mol) (ExtVal ()) (ExtVal ()))
              [ethanol, ethanol])) = ([(), ()], [3, 6], [2, 4])"
    by (simp add: example_lib_def)
  have enough: "\<And>g atoms bonds. case combined_edit example_lib g atoms bonds 2 of
        (ts, ss, cs) \<Rightarrow> nat 2 \<le> length ts \<and> nat 2 \<le> length ss \<and> nat 2 \<le> length cs"
    by (simp add: example_lib_def)
  have decoded: "\<And>idx a. snd (get_k_predictions example_lib idx a) \<noteq> []"
    by (simp add: example_lib_def)
  have ranked: "\<And>i a. ranked_predictions example_lib ethanol
          (map (eval example_lib) (hd (snd (get_k_predictions example_lib i a)))) =
        ([candidate_prediction ethanol {#\<lparr>smiles = ''C=C.O''\<rparr>#} (Fin (7 / 10)),
          candidate_prediction ethanol {#\<lparr>smiles = ''CC=O''\<rparr>#} (Fin (1 / 5))]
         :: (Molecule, Molecule Bag, unit) Prediction list)"
    by (simp add: example_lib_def)
  have row: "\<And>g atoms bonds.
      (case combined_edit example_lib g atoms bonds 2 of
         (ts, ss, cs) \<Rightarrow>
           smiles ethanol #
           map (\<lambda>j. render example_lib (ts ! j) (fst (ss ! j)) (snd (ss ! j)) (cs ! j))
             [0..<nat 2]) =
      [''CCO'', ''(a, 0, 1, 0.500)'', ''(a, 0, 1, 0.500)'']"
    by (simp add: example_lib_def ethanol_def upt_rec)
  from LocalRetroModel_call_one_list_per_input
    [where lib = example_lib and self = example_adapter and inputs = "[ethanol, ethanol]"
       and num_results = 2 and nf = "ExtVal ()" and ef = "ExtVal ()" and al = "()"
       and bl = "()" and graphs = "[(), ()]" and nodes_sep = "[3, 6]"
       and edges_sep = "[2, 4]" and ?'a = unit,
     OF featurizers logits partition enough decoded]
  obtain raw and res :: "(Molecule, Molecule Bag, unit) PredictionList list"
    where run: "LocalRetroModel_call example_lib example_adapter [ethanol, ethanol] 2 =
        (example_adapter\<lparr>args := (args example_adapter)
            (''top_k'' \<mapsto> IntVal 2, ''raw_predictions'' \<mapsto> RawPredictions raw)\<rparr>,
         Inr res)"
      and rlen: "length raw =
         min (length [ethanol, ethanol])
           (min (length [(), ()]) (min (length [3, 6 :: nat]) (length [2, 4 :: nat])))"
      and rows: "\<forall>i < length raw. raw ! i =
          (case combined_edit example_lib ([(), ()] ! i)
                  (slice_between (softmax example_lib ())
                     (if i = 0 then 0 else [3, 6] ! (i - 1)) ([3, 6] ! i))
                  (slice_between (softmax example_lib ())
                     (if i = 0 then 0 else [2, 4] ! (i - 1)) ([2, 4] ! i))
                  2 of
             (ts, ss, cs) \<Rightarrow>
               smiles ([ethanol, ethanol] ! i) #
               map (\<lambda>j. render example_lib (ts ! j) (fst (ss ! j)) (snd (ss ! j)) (cs ! j))
                 [0..<nat 2])"
      and len: "length res = length [ethanol, ethanol]"
      and each: "\<forall>i < length [ethanol, ethanol].
          PredictionList.input (res ! i) = [ethanol, ethanol] ! i
          \<and> predictions (res ! i) =
              ranked_predictions example_lib ([ethanol, ethanol] ! i)
                (map (eval example_lib)
                   (hd (snd (get_k_predictions example_lib i
                      ((args example_adapter)
                         (''top_k'' \<mapsto> IntVal 2,
                          ''raw_predictions'' \<mapsto> RawPredictions raw))))))
          \<and> list_all (\<lambda>p. Prediction.input p = [ethanol, ethanol] ! i
                           \<and> probability p \<noteq> None \<and> log_prob p = None)
               (predictions (res ! i))"
    by blast
  from rlen have rtwo: "length raw = 2" by simp
  from rows rtwo have r0: "raw ! 0 =
      (case combined_edit example_lib ([(), ()] ! 0)
              (slice_between (softmax example_lib ()) 0 ([3, 6] ! 0))
              (slice_between (softmax example_lib ()) 0 ([2, 4] ! 0)) 2 of
         (ts, ss, cs) \<Rightarrow>
           smiles ethanol #
           map (\<lambda>j. render example_lib (ts ! j) (fst (ss ! j)) (snd (ss ! j)) (cs ! j))
             [0..<nat 2])"
    by simp
  from rows rtwo have r1: "raw ! 1 =
      (case combined_edit example_lib ([(), ()] ! 1)
              (slice_between (softmax example_lib ()) ([3, 6] ! 0) ([3, 6] ! 1))
              (slice_between (softmax example_lib ()) ([2, 4] ! 0) ([2, 4] ! 1)) 2 of
         (ts, ss, cs) \<Rightarrow>
           smiles ethanol #
           map (\<lambda>j. render example_lib (ts ! j) (fst (ss ! j)) (snd (ss ! j)) (cs ! j))
             [0..<nat 2])"
    by simp
  have rows2: "raw ! 0 = [''CCO'', ''(a, 0, 1, 0.500)'', ''(a, 0, 1, 0.500)'']
      \<and> raw ! 1 = [''CCO'', ''(a, 0, 1, 0.500)'', ''(a, 0, 1, 0.500)'']"
    using r0 r1 unfolding row by simp
  from each have first: "PredictionList.input (res ! 0) = ethanol
      \<and> predictions (res ! 0) =
          ranked_predictions example_lib ethanol
            (map (eval example_lib)
               (hd (snd (get_k_predictions example_lib 0
                  ((args example_adapter)
                     (''top_k'' \<mapsto> IntVal 2,
                      ''raw_predictions'' \<mapsto> RawPredictions raw))))))"
    by simp
  from each have second: "PredictionList.input (res ! 1) = ethanol
      \<and> predictions (res ! 1) =
          ranked_predictions example_lib ethanol
            (map (eval example_lib)
               (hd (snd (get_k_predictions example_lib 1
                  ((args example_adapter)
                     (''top_k'' \<mapsto> IntVal 2,
                      ''raw_predictions'' \<mapsto> RawPredictions raw))))))"
    by simp
  from len have two: "length res = 2" by simp
  from first second have preds: "PredictionList.input (res ! 0) = ethanol
      \<and> PredictionList.input (res ! 1) = ethanol
      \<and> predictions (res ! 0) =
            [candidate_prediction ethanol {#\<lparr>smiles = ''C=C.O''\<rparr>#} (Fin (7 / 10)),
             candidate_prediction ethanol {#\<lparr>smiles = ''CC=O''\<rparr>#} (Fin (1 / 5))]
      \<and> predictions (res ! 1) =
            [candidate_prediction ethanol {#\<lparr>smiles = ''C=C.O''\<rparr>#} (Fin (7 / 10)),
             candidate_prediction ethanol {#\<lparr>smiles = ''CC=O''\<rparr>#} (Fin (1 / 5))]"
    unfolding ranked by simp
  from keys enough decoded run rtwo rows2 two preds show ?thesis by blast
qed


end
